theory Spec2Isabelle
  imports Main "HOL-Library.Sublist"
begin

section \<open>The GVK filter of cmd/manager/main.go\<close>

text \<open>
  \<^verbatim>\<open>schema.GroupVersionKind\<close> is a struct of three strings. Descriptors and the
  entries of \<^verbatim>\<open>kfdefcontroller.WatchedResources\<close> have this one type.
\<close>

record GroupVersionKind =
  Group :: string
  Version :: string
  Kind :: string

text \<open>Line 202: the local \<^verbatim>\<open>matchAnyValue := "*"\<close>.\<close>

definition matchAnyValue :: string where
  "matchAnyValue = ''*''"

text \<open>
  Lines 207 to 220: the value of the local \<^verbatim>\<open>match\<close> at line 221, for one
  \<^verbatim>\<open>watchedGVK\<close> and one \<^verbatim>\<open>gvk\<close>. The three inner tests run one after the other
  and each can only lower the flag.
\<close>

definition watchedMatch :: "GroupVersionKind \<Rightarrow> GroupVersionKind \<Rightarrow> bool" where
  "watchedMatch watchedGVK gvk =
     (if Kind watchedGVK = matchAnyValue \<and> Group watchedGVK = matchAnyValue
           \<and> Version watchedGVK = matchAnyValue
      then False
      else
        (let match0 = True;
             match1 = (if Kind watchedGVK \<noteq> matchAnyValue \<and> Kind watchedGVK \<noteq> Kind gvk
                       then False else match0);
             match2 = (if Group watchedGVK \<noteq> matchAnyValue \<and> Group watchedGVK \<noteq> Group gvk
                       then False else match1);
             match3 = (if Version watchedGVK \<noteq> matchAnyValue \<and> Version watchedGVK \<noteq> Version gvk
                       then False else match2)
         in match3))"

text \<open>
  Lines 206 to 224: the inner loop over the registry, for one \<^verbatim>\<open>gvk\<close>; the third
  argument is \<^verbatim>\<open>ownGVKs\<close>, and \<^verbatim>\<open>append\<close> adds at the end.
\<close>

fun watchedLoop :: "GroupVersionKind list \<Rightarrow> GroupVersionKind \<Rightarrow> GroupVersionKind list
    \<Rightarrow> GroupVersionKind list" where
  "watchedLoop [] gvk ownGVKs = ownGVKs"
| "watchedLoop (watchedGVK # rest) gvk ownGVKs =
     watchedLoop rest gvk (if watchedMatch watchedGVK gvk then ownGVKs @ [gvk] else ownGVKs)"

text \<open>Lines 205 to 225: the outer loop over the input slice.\<close>

fun gvksLoop :: "GroupVersionKind list \<Rightarrow> GroupVersionKind list \<Rightarrow> GroupVersionKind list
    \<Rightarrow> GroupVersionKind list" where
  "gvksLoop WatchedResources [] ownGVKs = ownGVKs"
| "gvksLoop WatchedResources (gvk # rest) ownGVKs =
     gvksLoop WatchedResources rest (watchedLoop WatchedResources gvk ownGVKs)"

text \<open>
  Lines 201 to 227. The package variable \<^verbatim>\<open>kfdefcontroller.WatchedResources\<close> is declared
  outside this file, so the registry is the first argument.
\<close>

definition filterGKVsFromAddToScheme :: "GroupVersionKind list \<Rightarrow> GroupVersionKind list
    \<Rightarrow> GroupVersionKind list" where
  "filterGKVsFromAddToScheme WatchedResources gvks = gvksLoop WatchedResources gvks []"

subsection \<open>The matching rule as the specification words it\<close>

text \<open>A spec whose three fields are all the wildcard marker.\<close>

definition allWildcard :: "GroupVersionKind \<Rightarrow> bool" where
  "allWildcard s = (Group s = ''*'' \<and> Version s = ''*'' \<and> Kind s = ''*'')"

text \<open>
  Field by field: the spec's field is the wildcard marker or equals the descriptor's
  field. Equality of \<^typ>\<open>string\<close> compares character by character, so it is
  case-sensitive.
\<close>

definition fieldwiseMatch :: "GroupVersionKind \<Rightarrow> GroupVersionKind \<Rightarrow> bool" where
  "fieldwiseMatch g s =
     ((Group s = ''*'' \<or> Group s = Group g) \<and>
      (Version s = ''*'' \<or> Version s = Version g) \<and>
      (Kind s = ''*'' \<or> Kind s = Kind g))"

text \<open>Section 4.1 of the specification: the field rule, and the all-wildcard spec matches nothing.\<close>

definition specMatches :: "GroupVersionKind \<Rightarrow> GroupVersionKind \<Rightarrow> bool" where
  "specMatches g s = (if allWildcard s then False else fieldwiseMatch g s)"

text \<open>How many entries of the registry a descriptor matches.\<close>

definition matchCount :: "GroupVersionKind list \<Rightarrow> GroupVersionKind \<Rightarrow> nat" where
  "matchCount WatchedResources gvk = length (filter (\<lambda>w. watchedMatch w gvk) WatchedResources)"

section \<open>The Go library functions that main calls on strings\<close>

text \<open>
  \<^verbatim>\<open>strings.Index(s, substr)\<close>: the index of the first instance of \<^verbatim>\<open>substr\<close> in
  \<^verbatim>\<open>s\<close>; Go returns -1 when there is none, which is \<^term>\<open>None\<close> here.
\<close>

fun Index :: "string \<Rightarrow> string \<Rightarrow> nat option" where
  "Index [] substr = (if substr = [] then Some 0 else None)"
| "Index (c # s) substr =
     (if prefix substr (c # s) then Some 0 else map_option Suc (Index s substr))"

text \<open>\<^verbatim>\<open>strings.Contains(s, substr)\<close> is \<^verbatim>\<open>Index(s, substr) >= 0\<close>.\<close>

definition Contains :: "string \<Rightarrow> string \<Rightarrow> bool" where
  "Contains s substr = (Index s substr \<noteq> None)"

text \<open>
  \<^verbatim>\<open>strings.Split(s, sep)\<close> for a separator that is not empty: the substrings between the
  instances of \<^verbatim>\<open>sep\<close>, found from the left one after the other, and the slice of the one
  element \<^verbatim>\<open>s\<close> when there is no instance. For the empty separator Go cuts after each
  UTF-8 sequence; the model cuts after each byte there, which main never asks for.
\<close>

function Split :: "string \<Rightarrow> string \<Rightarrow> string list" where
  "Split s sep =
     (if sep = [] then map (\<lambda>c. [c]) s
      else (case Index s sep of
              None \<Rightarrow> [s]
            | Some m \<Rightarrow> take m s # Split (drop (m + length sep) s) sep))"
  by pat_completeness auto
termination
proof (relation "measure (\<lambda>(s, sep). length s)")
  show "wf (measure (\<lambda>(s, sep). length s))" by simp
next
  fix s sep :: string and m :: nat
  assume sep: "sep \<noteq> []" and idx: "Index s sep = Some m"
  from idx sep have "s \<noteq> []" by (cases s) auto
  with sep show "((drop (m + length sep) s, sep), (s, sep)) \<in> measure (\<lambda>(s, sep). length s)"
    by (cases s; cases sep) simp_all
qed

declare Split.simps [simp del]

text \<open>\<^verbatim>\<open>strings.Join\<close>, used only to say what a split is.\<close>

fun Join :: "string list \<Rightarrow> string \<Rightarrow> string" where
  "Join [] sep = []"
| "Join [a] sep = a"
| "Join (a # b # rest) sep = a @ sep @ Join (b # rest) sep"

text \<open>\<^verbatim>\<open>fmt.Sprintf\<close> with the verb \<^verbatim>\<open>%d\<close>: decimal digits, and a sign for a negative number.\<close>

fun decimal :: "nat \<Rightarrow> string" where
  "decimal n = (if n < 10 then [''0123456789'' ! n]
                else decimal (n div 10) @ [''0123456789'' ! (n mod 10)])"

declare decimal.simps [simp del]

definition Sprintf_d :: "int \<Rightarrow> string" where
  "Sprintf_d n = (if n < 0 then ''-'' @ decimal (nat (- n)) else decimal (nat n))"

section \<open>The start-up sequence of cmd/manager/main.go\<close>

text \<open>Lines 43 to 47: the package variables.\<close>

definition metricsHost :: string where
  "metricsHost = ''0.0.0.0''"

definition metricsPort :: int where
  "metricsPort = 8383"

definition operatorMetricsPort :: int where
  "operatorMetricsPort = 8686"

text \<open>
  A Go \<^verbatim>\<open>error\<close> that is not nil. main compares an error with one sentinel only,
  \<^verbatim>\<open>metrics.ErrServiceMonitorNotPresent\<close>; every other error carries its message.
\<close>

datatype err = ErrServiceMonitorNotPresent | ErrOther string

text \<open>The logrus levels main logs at: \<^verbatim>\<open>Infof\<close>, \<^verbatim>\<open>Warnf\<close> and \<^verbatim>\<open>Errorf\<close>.\<close>

datatype level = Info | Warn | Error

fun severity :: "level \<Rightarrow> nat" where
  "severity Info = 0"
| "severity Warn = 1"
| "severity Error = 2"

datatype arg = AStr string | AErr err

text \<open>
  The fields of \<^verbatim>\<open>manager.Options\<close> that main sets. A nil \<^verbatim>\<open>NewCache\<close> is
  \<^term>\<open>None\<close>; the only builder main installs is \<^verbatim>\<open>cache.MultiNamespacedCacheBuilder\<close>
  over a list of namespaces.
\<close>

datatype MapperProviderFunc = NewDynamicRESTMapper

datatype NewCacheFunc = MultiNamespacedCacheBuilder "string list"

record Options =
  Namespace :: string
  MapperProvider :: MapperProviderFunc
  MetricsBindAddress :: string
  NewCache :: "NewCacheFunc option"

text \<open>
  What the process does that can be seen from outside: a log line (level, format string,
  arguments) or a call of a collaborator with the arguments main chooses. The call of
  \<^verbatim>\<open>filterGKVsFromAddToScheme\<close> is recorded too, with its argument.
\<close>

datatype event =
    Log level string "arg list"
  | Call_GetWatchNamespace
  | Call_GetConfig
  | Call_Become string
  | Call_manager_New Options
  | Call_AddToScheme
  | Call_AddToManager
  | Call_GetGVKsFromAddToScheme
  | Call_GetOperatorNamespace
  | Call_filterGKVsFromAddToScheme "GroupVersionKind list"
  | Call_GenerateAndServeCRMetrics "string list" "GroupVersionKind list" string int
  | Call_CreateMetricsService "int list"
  | Call_CreateServiceMonitors string
  | Call_mgr_Start

text \<open>
  What the collaborators return, one field for each call site of main and
  serveCRMetrics; a collaborator whose arguments main computes is a function of them.
  An error result is \<^term>\<open>Some e\<close>, nil is \<^term>\<open>None\<close>. The collaborators are taken to
  return: a panic or a blocked call inside one of them is outside this model.
  \<^verbatim>\<open>k8sutil.GetOperatorNamespace\<close> is called twice, at line 175 and at line 143.
\<close>

record world =
  WatchedResources :: "GroupVersionKind list"
  GetWatchNamespace :: "string \<times> err option"
  GetConfig :: "err option"
  Become :: "string \<Rightarrow> err option"
  manager_New :: "Options \<Rightarrow> err option"
  AddToScheme :: "err option"
  AddToManager :: "err option"
  GetGVKsFromAddToScheme :: "GroupVersionKind list \<times> err option"
  GetOperatorNamespace_175 :: "string \<times> err option"
  GenerateAndServeCRMetrics :: "string list \<Rightarrow> GroupVersionKind list \<Rightarrow> err option"
  CreateMetricsService :: "err option"
  GetOperatorNamespace_143 :: "string \<times> err option"
  CreateServiceMonitors :: "string \<Rightarrow> err option"
  mgr_Start :: "err option"

text \<open>Lines 49 to 54; the values printed are constants of the build and are left out.\<close>

definition printVersion :: "event list" where
  "printVersion =
     [Log Info ''Go Version: %s'' [],
      Log Info ''Go OS/Arch: %s/%s'' [],
      Log Info ''Version of operator-sdk: %v'' [],
      Log Info ''Kubeflow version: %v'' []]"

text \<open>
  Lines 166 to 194. The test at line 182 reads the \<^verbatim>\<open>err\<close> of line 175 a second time,
  after the filter has run.
\<close>

definition serveCRMetrics :: "world \<Rightarrow> event list \<times> err option" where
  "serveCRMetrics w =
     (case GetGVKsFromAddToScheme w of (gvks, err) \<Rightarrow>
        (case err of
           Some e \<Rightarrow> ([Call_GetGVKsFromAddToScheme], Some e)
         | None \<Rightarrow>
            (case GetOperatorNamespace_175 w of (operatorNs, err) \<Rightarrow>
               (case err of
                  Some e \<Rightarrow> ([Call_GetGVKsFromAddToScheme, Call_GetOperatorNamespace], Some e)
                | None \<Rightarrow>
                   (let filteredGVK = filterGKVsFromAddToScheme (WatchedResources w) gvks
                    in (case err of
                          Some e \<Rightarrow>
                            ([Call_GetGVKsFromAddToScheme, Call_GetOperatorNamespace,
                              Call_filterGKVsFromAddToScheme gvks], Some e)
                        | None \<Rightarrow>
                           (let ns = [operatorNs]
                            in ([Call_GetGVKsFromAddToScheme, Call_GetOperatorNamespace,
                                 Call_filterGKVsFromAddToScheme gvks,
                                 Call_GenerateAndServeCRMetrics ns filteredGVK metricsHost
                                   operatorMetricsPort],
                                GenerateAndServeCRMetrics w ns filteredGVK))))))))"

text \<open>Lines 91 to 103: the options, and the log line of the multi-namespace branch.\<close>

definition managerOptions :: "string \<Rightarrow> event list \<times> Options" where
  "managerOptions watchNamespace =
     (let options = \<lparr>Namespace = watchNamespace,
                     MapperProvider = NewDynamicRESTMapper,
                     MetricsBindAddress = metricsHost @ '':'' @ Sprintf_d metricsPort,
                     NewCache = None\<rparr>
      in if Contains watchNamespace '',''
         then ([Log Info ''manager set up with multiple namespaces: %s'' [AStr watchNamespace]],
               options\<lparr>Namespace := [],
                       NewCache := Some (MultiNamespacedCacheBuilder (Split watchNamespace '',''))\<rparr>)
         else ([], options))"

text \<open>
  Lines 126 to 153: the metrics steps. None of them ends the process. Of a service port
  only the port number is kept.
\<close>

definition exposeMetrics :: "world \<Rightarrow> event list" where
  "exposeMetrics w =
     (case serveCRMetrics w of (served, err) \<Rightarrow>
        served
        @ (case err of
             Some e \<Rightarrow> [Log Error
               ''Could not generate and serve custom resource metrics. Error: %v.'' [AErr e]]
           | None \<Rightarrow> [])
        @ [Call_CreateMetricsService [metricsPort, operatorMetricsPort]]
        @ (case CreateMetricsService w of
             Some e \<Rightarrow> [Log Error ''Could not create metrics Service. Error: %v.'' [AErr e]]
           | None \<Rightarrow> [])
        @ (case GetOperatorNamespace_143 w of (operatorNamespace, ignored) \<Rightarrow>
             [Call_GetOperatorNamespace, Call_CreateServiceMonitors operatorNamespace]
             @ (case CreateServiceMonitors w operatorNamespace of
                  Some e \<Rightarrow>
                    [Log Error ''Could not create ServiceMonitor object. Error: %v.'' [AErr e]]
                    @ (if e = ErrServiceMonitorNotPresent
                       then [Log Error
                         ''Install prometheus-operator in your cluster to create ServiceMonitor objects. Error: %v.''
                         [AErr e]]
                       else [])
                | None \<Rightarrow> [])))"

text \<open>Lines 155 to 161: the run loop. Returning from main ends the process with status 0.\<close>

definition startManager :: "world \<Rightarrow> event list \<times> int" where
  "startManager w =
     (case mgr_Start w of
        Some e \<Rightarrow> ([Log Info ''Starting the Cmd.'' [], Call_mgr_Start,
                    Log Error ''Manager exited non-zero. Error: %v.'' [AErr e]], 1)
      | None \<Rightarrow> ([Log Info ''Starting the Cmd.'' [], Call_mgr_Start], 0))"

text \<open>
  Lines 56 to 162: the events of the process in order, and its exit status. Each
  \<^verbatim>\<open>os.Exit(1)\<close> ends the trace where it stands. The flag set-up of lines 59 to 65
  returns nothing that main reads and is left out.
\<close>

definition main :: "world \<Rightarrow> event list \<times> int" where
  "main w =
     (case GetWatchNamespace w of (watchNamespace, err) \<Rightarrow>
      let t0 = printVersion @ [Call_GetWatchNamespace]
               @ (case err of
                    Some e \<Rightarrow> [Log Warn
                      ''Failed to get watch watchNamespace. The manager will watch and manage resources in all Namespaces. Error %v.''
                      [AErr e]]
                  | None \<Rightarrow> [])
               @ [Call_GetConfig]
      in case GetConfig w of
           Some e \<Rightarrow> (t0 @ [Log Error ''Error: %v.'' [AErr e]], 1)
         | None \<Rightarrow>
      let t1 = t0 @ [Call_Become ''kfctl-lock'']
      in case Become w ''kfctl-lock'' of
           Some e \<Rightarrow> (t1 @ [Log Error ''Error: %v.'' [AErr e]], 1)
         | None \<Rightarrow>
      (case managerOptions watchNamespace of (logged, options) \<Rightarrow>
      let t2 = t1 @ logged @ [Call_manager_New options]
      in case manager_New w options of
           Some e \<Rightarrow> (t2 @ [Log Error ''Error: %v.'' [AErr e]], 1)
         | None \<Rightarrow>
      let t3 = t2 @ [Log Info ''Registering Components.'' [], Call_AddToScheme]
      in case AddToScheme w of
           Some e \<Rightarrow> (t3 @ [Log Error ''Error: %v.'' [AErr e]], 1)
         | None \<Rightarrow>
      let t4 = t3 @ [Call_AddToManager]
      in case AddToManager w of
           Some e \<Rightarrow> (t4 @ [Log Error ''Error: %v.'' [AErr e]], 1)
         | None \<Rightarrow>
      (case startManager w of (started, status) \<Rightarrow>
         (t4 @ exposeMetrics w @ started, status))))"

section \<open>Reading a trace of main\<close>

text \<open>The calls of a trace, in order, without the log lines.\<close>

fun isCall :: "event \<Rightarrow> bool" where
  "isCall (Log l f as) = False"
| "isCall ev = True"

definition callsOf :: "event list \<Rightarrow> event list" where
  "callsOf t = filter isCall t"

text \<open>The log lines of a trace that carry a given error as an argument, and their levels.\<close>

fun logsError :: "err \<Rightarrow> event \<Rightarrow> bool" where
  "logsError e (Log l f as) = (AErr e \<in> set as)"
| "logsError e ev = False"

definition logsAbout :: "err \<Rightarrow> event list \<Rightarrow> event list" where
  "logsAbout e t = filter (logsError e) t"

fun levelOf :: "event \<Rightarrow> level option" where
  "levelOf (Log l f as) = Some l"
| "levelOf ev = None"

text \<open>Some log line about the error is at a severity below the given level.\<close>

definition loggedBelow :: "level \<Rightarrow> err \<Rightarrow> event list \<Rightarrow> bool" where
  "loggedBelow l e t =
     list_ex (\<lambda>ev. case levelOf ev of None \<Rightarrow> False | Some k \<Rightarrow> severity k < severity l)
       (logsAbout e t)"

text \<open>The format strings of lines 127, 138, 147 and 151.\<close>

abbreviation couldNotServe :: string where
  "couldNotServe \<equiv> ''Could not generate and serve custom resource metrics. Error: %v.''"

abbreviation couldNotCreateServiceMonitor :: string where
  "couldNotCreateServiceMonitor \<equiv> ''Could not create ServiceMonitor object. Error: %v.''"

abbreviation couldNotCreateService :: string where
  "couldNotCreateService \<equiv> ''Could not create metrics Service. Error: %v.''"

abbreviation installPrometheus :: string where
  "installPrometheus \<equiv>
     ''Install prometheus-operator in your cluster to create ServiceMonitor objects. Error: %v.''"

text \<open>The log lines of a trace with the guidance of line 151, at any level.\<close>

fun isGuidance :: "event \<Rightarrow> bool" where
  "isGuidance (Log l f as) = (f = installPrometheus)"
| "isGuidance ev = False"

text \<open>The options that main hands to \<^verbatim>\<open>manager.New\<close> in a given world.\<close>

definition optionsOf :: "world \<Rightarrow> Options" where
  "optionsOf w = snd (managerOptions (fst (GetWatchNamespace w)))"

text \<open>The API config is read and leadership is acquired: main reaches line 91.\<close>

definition leads :: "world \<Rightarrow> bool" where
  "leads w = (GetConfig w = None \<and> Become w ''kfctl-lock'' = None)"

text \<open>Every step before line 126 succeeds: main reaches the metrics steps.\<close>

definition bootstrapped :: "world \<Rightarrow> bool" where
  "bootstrapped w =
     (leads w \<and> manager_New w (optionsOf w) = None \<and> AddToScheme w = None \<and>
      AddToManager w = None)"

text \<open>The calls of main up to and including each of its first six call sites.\<close>

definition callsToConfig :: "event list" where
  "callsToConfig = [Call_GetWatchNamespace, Call_GetConfig]"

definition callsToBecome :: "event list" where
  "callsToBecome = callsToConfig @ [Call_Become ''kfctl-lock'']"

definition callsToNew :: "world \<Rightarrow> event list" where
  "callsToNew w = callsToBecome @ [Call_manager_New (optionsOf w)]"

definition callsToScheme :: "world \<Rightarrow> event list" where
  "callsToScheme w = callsToNew w @ [Call_AddToScheme]"

definition callsToControllers :: "world \<Rightarrow> event list" where
  "callsToControllers w = callsToScheme w @ [Call_AddToManager]"

lemmas calls_defs =
  callsToConfig_def callsToBecome_def callsToNew_def callsToScheme_def callsToControllers_def

text \<open>The trace of main before line 126, when every step up to there succeeds.\<close>

definition bootTrace :: "world \<Rightarrow> event list" where
  "bootTrace w =
     printVersion @ [Call_GetWatchNamespace]
     @ (case snd (GetWatchNamespace w) of
          Some e \<Rightarrow> [Log Warn
            ''Failed to get watch watchNamespace. The manager will watch and manage resources in all Namespaces. Error %v.''
            [AErr e]]
        | None \<Rightarrow> [])
     @ [Call_GetConfig, Call_Become ''kfctl-lock'']
     @ fst (managerOptions (fst (GetWatchNamespace w)))
     @ [Call_manager_New (optionsOf w), Log Info ''Registering Components.'' [],
        Call_AddToScheme, Call_AddToManager]"

section \<open>Inputs to run the model on\<close>

subsection \<open>The descriptors and specs of the scenario in section 8 of the specification\<close>

definition gvk_a_Foo :: GroupVersionKind where
  "gvk_a_Foo = \<lparr>Group = ''a'', Version = ''v1'', Kind = ''Foo''\<rparr>"

definition gvk_b_Bar :: GroupVersionKind where
  "gvk_b_Bar = \<lparr>Group = ''b'', Version = ''v1'', Kind = ''Bar''\<rparr>"

definition gvk_a_Baz :: GroupVersionKind where
  "gvk_a_Baz = \<lparr>Group = ''a'', Version = ''v1'', Kind = ''Baz''\<rparr>"

definition spec_a_any_Foo :: GroupVersionKind where
  "spec_a_any_Foo = \<lparr>Group = ''a'', Version = ''*'', Kind = ''Foo''\<rparr>"

definition spec_any_any_Baz :: GroupVersionKind where
  "spec_any_any_Baz = \<lparr>Group = ''*'', Version = ''*'', Kind = ''Baz''\<rparr>"

definition spec_any_any_Foo :: GroupVersionKind where
  "spec_any_any_Foo = \<lparr>Group = ''*'', Version = ''*'', Kind = ''Foo''\<rparr>"

definition spec_all_wildcards :: GroupVersionKind where
  "spec_all_wildcards = \<lparr>Group = ''*'', Version = ''*'', Kind = ''*''\<rparr>"

lemmas scenario_defs =
  gvk_a_Foo_def gvk_b_Bar_def gvk_a_Baz_def spec_a_any_Foo_def spec_any_any_Baz_def
  spec_any_any_Foo_def spec_all_wildcards_def

lemmas filter_eval =
  filterGKVsFromAddToScheme_def watchedMatch_def matchAnyValue_def

subsection \<open>Worlds to run main in\<close>

text \<open>Every collaborator succeeds; two namespaces are watched.\<close>

definition world_ok :: world where
  "world_ok =
     \<lparr>WatchedResources = [spec_a_any_Foo, spec_any_any_Baz],
      GetWatchNamespace = (''team-a,team-b'', None),
      GetConfig = None,
      Become = (\<lambda>lockName. None),
      manager_New = (\<lambda>options. None),
      AddToScheme = None,
      AddToManager = None,
      GetGVKsFromAddToScheme = ([gvk_a_Foo, gvk_b_Bar, gvk_a_Baz], None),
      GetOperatorNamespace_175 = (''opendatahub'', None),
      GenerateAndServeCRMetrics = (\<lambda>ns gvks. None),
      CreateMetricsService = None,
      GetOperatorNamespace_143 = (''opendatahub'', None),
      CreateServiceMonitors = (\<lambda>ns. None),
      mgr_Start = None\<rparr>"

subsection \<open>Worlds in which one collaborator fails\<close>

definition world_no_lock :: world where
  "world_no_lock = world_ok\<lparr>Become := (\<lambda>lockName. Some (ErrOther ''lock not acquired''))\<rparr>"

definition world_metrics_down :: world where
  "world_metrics_down =
     world_ok\<lparr>GenerateAndServeCRMetrics := (\<lambda>ns gvks. Some (ErrOther ''address already in use'')),
              CreateMetricsService := Some (ErrOther ''failed to create service'')\<rparr>"

definition world_no_prometheus :: world where
  "world_no_prometheus =
     world_ok\<lparr>CreateServiceMonitors := (\<lambda>ns. Some ErrServiceMonitorNotPresent)\<rparr>"

definition world_monitor_error :: world where
  "world_monitor_error =
     world_ok\<lparr>CreateServiceMonitors := (\<lambda>ns. Some (ErrOther ''forbidden''))\<rparr>"

definition world_no_operator_namespace :: world where
  "world_no_operator_namespace =
     world_ok\<lparr>GetOperatorNamespace_175 := ([], Some (ErrOther ''namespace not found''))\<rparr>"

text \<open>Worlds for each of the steps that end the process.\<close>

definition world_no_config :: world where
  "world_no_config = world_ok\<lparr>GetConfig := Some (ErrOther ''no kubeconfig'')\<rparr>"

definition world_no_manager :: world where
  "world_no_manager = world_ok\<lparr>manager_New := (\<lambda>options. Some (ErrOther ''no manager''))\<rparr>"

definition world_no_scheme :: world where
  "world_no_scheme = world_ok\<lparr>AddToScheme := Some (ErrOther ''scheme'')\<rparr>"

definition world_no_controllers :: world where
  "world_no_controllers = world_ok\<lparr>AddToManager := Some (ErrOther ''controller'')\<rparr>"

definition world_start_fails :: world where
  "world_start_fails =
     world_metrics_down\<lparr>mgr_Start := Some (ErrOther ''manager stopped'')\<rparr>"

lemmas world_defs =
  world_ok_def world_no_lock_def world_metrics_down_def world_no_prometheus_def
  world_monitor_error_def world_no_operator_namespace_def

lemmas fatal_world_defs =
  world_no_config_def world_no_manager_def world_no_scheme_def world_no_controllers_def
  world_start_fails_def

section \<open>Properties of the filter\<close>

lemma watchedMatch_specMatches: "watchedMatch s g = specMatches g s"
  by (auto simp: watchedMatch_def specMatches_def allWildcard_def fieldwiseMatch_def
      matchAnyValue_def)

lemma watchedLoop_replicate:
  "watchedLoop ws g own = own @ replicate (matchCount ws g) g"
proof (induction ws arbitrary: own)
  case Nil
  show ?case by (simp add: matchCount_def)
next
  case (Cons w ws)
  have step: "matchCount (w # ws) g = (if watchedMatch w g then Suc (matchCount ws g) else matchCount ws g)"
    by (simp add: matchCount_def)
  show ?case
    by (simp add: Cons.IH step replicate_app_Cons_same del: replicate.simps)
       (simp add: replicate_app_Cons_same)
qed

lemma gvksLoop_concat:
  "gvksLoop ws gs own = own @ concat (map (\<lambda>g. replicate (matchCount ws g) g) gs)"
  by (induction gs arbitrary: own) (simp_all add: watchedLoop_replicate)

lemma filter_concat:
  "filterGKVsFromAddToScheme ws gs = concat (map (\<lambda>g. replicate (matchCount ws g) g) gs)"
  by (simp add: filterGKVsFromAddToScheme_def gvksLoop_concat)

lemma matchCount_pos: "0 < matchCount ws g \<longleftrightarrow> (\<exists>s \<in> set ws. watchedMatch s g)"
  by (simp add: matchCount_def filter_empty_conv)

lemma set_filter_iff:
  "g \<in> set (filterGKVsFromAddToScheme ws gs) \<longleftrightarrow> g \<in> set gs \<and> (\<exists>s \<in> set ws. watchedMatch s g)"
  by (auto simp: filter_concat matchCount_pos [symmetric])

lemma matchCount_append: "matchCount (xs @ ys) g = matchCount xs g + matchCount ys g"
  by (simp add: matchCount_def)

lemma matchCount_Cons:
  "matchCount (s # ys) g = (if watchedMatch s g then Suc (matchCount ys g) else matchCount ys g)"
  by (simp add: matchCount_def)

lemma allWildcard_no_match: "allWildcard s \<Longrightarrow> \<not> watchedMatch s g"
  by (simp add: watchedMatch_specMatches specMatches_def)

lemma count_list_replicate: "count_list (replicate n x) y = (if x = y then n else 0)"
  by (induction n) auto

lemma count_list_filter:
  "count_list (filterGKVsFromAddToScheme ws gs) g = count_list gs g * matchCount ws g"
  by (induction gs) (simp_all add: filter_concat count_list_replicate)

text \<open>
  C1. Every element of the list that filterGKVsFromAddToScheme returns is an element of
  its input, and a descriptor is in the output exactly when it is in the input and
  matches at least one spec of the registry under the rule of section 4.1 (field by
  field wildcard or equality, the all-wildcard spec matching nothing).
\<close>

theorem filter_subset_iff_matches:
  "set (filterGKVsFromAddToScheme S D) \<subseteq> set D \<and>
   (g \<in> set (filterGKVsFromAddToScheme S D) \<longleftrightarrow> g \<in> set D \<and> (\<exists>s \<in> set S. specMatches g s))"
proof -
  have iff: "\<And>x. x \<in> set (filterGKVsFromAddToScheme S D) \<longleftrightarrow>
      x \<in> set D \<and> (\<exists>s \<in> set S. specMatches x s)"
    by (simp add: set_filter_iff watchedMatch_specMatches)
  then have "set (filterGKVsFromAddToScheme S D) \<subseteq> set D" by blast
  with iff show ?thesis by blast
qed

theorem filter_subset_iff_matches_witness:
  "set (filterGKVsFromAddToScheme [spec_a_any_Foo, spec_any_any_Baz]
          [gvk_a_Foo, gvk_b_Bar, gvk_a_Baz]) \<subseteq> set [gvk_a_Foo, gvk_b_Bar, gvk_a_Baz] \<and>
   gvk_a_Baz \<in> set (filterGKVsFromAddToScheme [spec_a_any_Foo, spec_any_any_Baz]
          [gvk_a_Foo, gvk_b_Bar, gvk_a_Baz]) \<and>
   gvk_b_Bar \<notin> set (filterGKVsFromAddToScheme [spec_a_any_Foo, spec_any_any_Baz]
          [gvk_a_Foo, gvk_b_Bar, gvk_a_Baz]) \<and>
   filterGKVsFromAddToScheme [spec_a_any_Foo, spec_any_any_Baz]
          [gvk_a_Foo, gvk_b_Bar, gvk_a_Baz] = [gvk_a_Foo, gvk_a_Baz]"
  using filter_subset_iff_matches [of "[spec_a_any_Foo, spec_any_any_Baz]"
      "[gvk_a_Foo, gvk_b_Bar, gvk_a_Baz]" gvk_a_Baz]
    filter_subset_iff_matches [of "[spec_a_any_Foo, spec_any_any_Baz]"
      "[gvk_a_Foo, gvk_b_Bar, gvk_a_Baz]" gvk_b_Bar]
  by (simp add: filter_eval scenario_defs specMatches_def allWildcard_def fieldwiseMatch_def)

text \<open>
  C2. For a watch spec that is not all-wildcard, the code's match flag for a descriptor
  and the spec is true exactly when each of Group, Version and Kind of the spec is the
  wildcard or equals the descriptor's field; the spec with wildcard Group and Version
  and Kind Foo matches exactly the descriptors whose Kind is Foo.
\<close>

theorem watchedMatch_fieldwise:
  assumes "\<not> allWildcard s"
  shows "watchedMatch s g = fieldwiseMatch g s \<and>
         watchedMatch \<lparr>Group = ''*'', Version = ''*'', Kind = ''Foo''\<rparr> g = (Kind g = ''Foo'')"
proof
  from assms show "watchedMatch s g = fieldwiseMatch g s"
    by (simp add: watchedMatch_specMatches specMatches_def)
next
  show "watchedMatch \<lparr>Group = ''*'', Version = ''*'', Kind = ''Foo''\<rparr> g = (Kind g = ''Foo'')"
    by (auto simp: watchedMatch_def matchAnyValue_def)
qed

theorem watchedMatch_fieldwise_witness:
  "\<not> allWildcard spec_a_any_Foo \<and>
   watchedMatch spec_a_any_Foo gvk_a_Foo \<and> fieldwiseMatch gvk_a_Foo spec_a_any_Foo \<and>
   \<not> watchedMatch spec_a_any_Foo \<lparr>Group = ''a'', Version = ''v1'', Kind = ''foo''\<rparr> \<and>
   \<not> watchedMatch spec_a_any_Foo \<lparr>Group = ''b'', Version = ''v1'', Kind = ''Foo''\<rparr> \<and>
   watchedMatch spec_any_any_Foo \<lparr>Group = ''b'', Version = ''v2'', Kind = ''Foo''\<rparr> \<and>
   \<not> watchedMatch spec_any_any_Foo gvk_a_Baz"
proof -
  have h: "\<not> allWildcard spec_a_any_Foo"
    by (simp add: allWildcard_def spec_a_any_Foo_def)
  show ?thesis
    using h watchedMatch_fieldwise [OF h, of gvk_a_Foo]
      watchedMatch_fieldwise [OF h, of "\<lparr>Group = ''a'', Version = ''v1'', Kind = ''foo''\<rparr>"]
      watchedMatch_fieldwise [OF h, of "\<lparr>Group = ''b'', Version = ''v1'', Kind = ''Foo''\<rparr>"]
      watchedMatch_fieldwise [OF h, of "\<lparr>Group = ''b'', Version = ''v2'', Kind = ''Foo''\<rparr>"]
      watchedMatch_fieldwise [OF h, of gvk_a_Baz]
    by (simp add: fieldwiseMatch_def scenario_defs)
qed

text \<open>
  C3. A watch spec whose Group, Version and Kind are all the wildcard matches no
  descriptor, and the output of filterGKVsFromAddToScheme is the same with the spec in
  the registry, at any place, as without it.
\<close>

theorem allWildcard_contributes_nothing:
  assumes "allWildcard s"
  shows "\<not> watchedMatch s g \<and>
         filterGKVsFromAddToScheme (S1 @ s # S2) D = filterGKVsFromAddToScheme (S1 @ S2) D"
proof -
  from assms have none: "\<And>x. \<not> watchedMatch s x" by (rule allWildcard_no_match)
  then have "\<And>x. matchCount (S1 @ s # S2) x = matchCount (S1 @ S2) x"
    by (simp add: matchCount_append matchCount_Cons)
  then have "filterGKVsFromAddToScheme (S1 @ s # S2) D = filterGKVsFromAddToScheme (S1 @ S2) D"
    by (simp add: filter_concat)
  with none show ?thesis by simp
qed

theorem allWildcard_contributes_nothing_witness:
  "allWildcard spec_all_wildcards \<and>
   \<not> watchedMatch spec_all_wildcards gvk_a_Foo \<and>
   filterGKVsFromAddToScheme [spec_a_any_Foo, spec_all_wildcards, spec_any_any_Baz]
     [gvk_a_Foo, gvk_b_Bar, gvk_a_Baz] = [gvk_a_Foo, gvk_a_Baz] \<and>
   filterGKVsFromAddToScheme [spec_all_wildcards] [gvk_a_Foo, gvk_b_Bar, gvk_a_Baz] = []"
proof -
  have h: "allWildcard spec_all_wildcards"
    by (simp add: allWildcard_def spec_all_wildcards_def)
  show ?thesis
    using h
      allWildcard_contributes_nothing [OF h, of gvk_a_Foo "[spec_a_any_Foo]" "[spec_any_any_Baz]"
        "[gvk_a_Foo, gvk_b_Bar, gvk_a_Baz]"]
      allWildcard_contributes_nothing [OF h, of gvk_a_Foo "[]" "[]"
        "[gvk_a_Foo, gvk_b_Bar, gvk_a_Baz]"]
    by (simp add: filter_eval scenario_defs)
qed

text \<open>
  C4. filterGKVsFromAddToScheme keeps the order of its input and removes no duplicate:
  its output is the input with each descriptor repeated once for each spec of the
  registry that it matches, so a descriptor that stands n times in the input and matches
  k specs stands n * k times in the output.
\<close>

theorem filter_once_per_matching_spec:
  "filterGKVsFromAddToScheme S D = concat (map (\<lambda>g. replicate (matchCount S g) g) D) \<and>
   count_list (filterGKVsFromAddToScheme S D) g = count_list D g * matchCount S g"
  using filter_concat [of S D] count_list_filter [of S D g] by (rule conjI)

theorem filter_once_per_matching_spec_witness:
  "filterGKVsFromAddToScheme [spec_a_any_Foo, spec_any_any_Foo, spec_any_any_Baz]
     [gvk_a_Baz, gvk_a_Foo, gvk_b_Bar, gvk_a_Baz]
   = [gvk_a_Baz, gvk_a_Foo, gvk_a_Foo, gvk_a_Baz] \<and>
   matchCount [spec_a_any_Foo, spec_any_any_Foo, spec_any_any_Baz] gvk_a_Foo = 2 \<and>
   count_list (filterGKVsFromAddToScheme [spec_a_any_Foo, spec_any_any_Foo, spec_any_any_Baz]
     [gvk_a_Baz, gvk_a_Foo, gvk_b_Bar, gvk_a_Baz]) gvk_a_Baz = 2"
  using filter_once_per_matching_spec [of "[spec_a_any_Foo, spec_any_any_Foo, spec_any_any_Baz]"
      "[gvk_a_Baz, gvk_a_Foo, gvk_b_Bar, gvk_a_Baz]" gvk_a_Baz]
  by (simp add: matchCount_def watchedMatch_def matchAnyValue_def scenario_defs)

text \<open>
  C9. For a fixed registry, filtering the concatenation of two descriptor lists gives
  the concatenation of the two filtered lists.
\<close>

theorem filter_append_distrib:
  "filterGKVsFromAddToScheme S (D1 @ D2) =
   filterGKVsFromAddToScheme S D1 @ filterGKVsFromAddToScheme S D2"
  by (simp add: filter_concat)

section \<open>Properties of the string functions\<close>

lemma Index_decomp:
  "Index s sep = Some m \<Longrightarrow> s = take m s @ sep @ drop (m + length sep) s"
proof (induction s arbitrary: m)
  case Nil
  then show ?case by (simp split: if_splits)
next
  case (Cons c s)
  show ?case
  proof (cases "prefix sep (c # s)")
    case True
    with Cons.prems have "m = 0" by simp
    moreover from True obtain zs where "c # s = sep @ zs" by (auto simp: prefix_def)
    ultimately show ?thesis by simp
  next
    case False
    with Cons.prems obtain m' where m': "m = Suc m'" "Index s sep = Some m'" by auto
    from Cons.IH [OF m'(2)] m'(1) show ?thesis by simp
  qed
qed

lemma Index_first:
  "Index s sep = Some m \<Longrightarrow> sep \<noteq> [] \<Longrightarrow> Index (take m s) sep = None"
proof (induction s arbitrary: m)
  case Nil
  then show ?case by simp
next
  case (Cons c s)
  show ?case
  proof (cases "prefix sep (c # s)")
    case True
    with Cons.prems show ?thesis by simp
  next
    case False
    with Cons.prems obtain m' where m': "m = Suc m'" "Index s sep = Some m'" by auto
    have "prefix (c # take m' s) (c # s)" by (simp add: take_is_prefix)
    with False have "\<not> prefix sep (c # take m' s)" using prefix_order.trans by blast
    with Cons.IH [OF m'(2) Cons.prems(2)] m'(1) show ?thesis by simp
  qed
qed

lemma Contains_char: "Contains s [c] \<longleftrightarrow> c \<in> set s"
  unfolding Contains_def by (induction s) auto

lemma Split_nonempty: "sep \<noteq> [] \<Longrightarrow> Split s sep \<noteq> []"
  by (subst Split.simps) (simp split: option.splits)

lemma Join_Cons: "xs \<noteq> [] \<Longrightarrow> Join (a # xs) sep = a @ sep @ Join xs sep"
  by (cases xs) simp_all

lemma Join_Split: "sep \<noteq> [] \<Longrightarrow> Join (Split s sep) sep = s"
proof (induction s sep rule: Split.induct)
  case (1 s sep)
  show ?case
  proof (cases "Index s sep")
    case None
    with "1.prems" show ?thesis by (subst Split.simps) simp
  next
    case (Some m)
    from "1.IH" [OF "1.prems" Some "1.prems"]
    have "Join (Split (drop (m + length sep) s) sep) sep = drop (m + length sep) s" .
    with Some "1.prems" Index_decomp [OF Some] show ?thesis
      by (subst Split.simps) (simp add: Join_Cons Split_nonempty)
  qed
qed

lemma Split_unfold:
  "sep \<noteq> [] \<Longrightarrow>
   Split s sep = (case Index s sep of
                    None \<Rightarrow> [s]
                  | Some m \<Rightarrow> take m s # Split (drop (m + length sep) s) sep)"
  by (subst Split.simps) simp

lemma Split_no_sep: "sep \<noteq> [] \<Longrightarrow> n \<in> set (Split s sep) \<Longrightarrow> \<not> Contains n sep"
proof (induction s sep arbitrary: n rule: Split.induct)
  case (1 s sep)
  note unfold = Split_unfold [OF "1.prems"(1), of s]
  show ?case
  proof (cases "Index s sep")
    case None
    with "1.prems"(2) unfold show ?thesis by (simp add: Contains_def)
  next
    case (Some m)
    with "1.prems"(2) unfold
    have "n = take m s \<or> n \<in> set (Split (drop (m + length sep) s) sep)" by simp
    then show ?thesis
    proof
      assume "n = take m s"
      with Index_first [OF Some "1.prems"(1)] show ?thesis by (simp add: Contains_def)
    next
      assume "n \<in> set (Split (drop (m + length sep) s) sep)"
      with "1.IH" [OF "1.prems"(1) Some "1.prems"(1)] show ?thesis .
    qed
  qed
qed

lemma Split_no_instance: "sep \<noteq> [] \<Longrightarrow> \<not> Contains s sep \<Longrightarrow> Split s sep = [s]"
  by (subst Split.simps) (simp add: Contains_def)

section \<open>Properties of the start-up sequence\<close>

lemma callsOf_append: "callsOf (xs @ ys) = callsOf xs @ callsOf ys"
  by (simp add: callsOf_def)

lemma callsOf_managerOptions: "callsOf (fst (managerOptions wn)) = []"
  by (simp add: managerOptions_def callsOf_def Let_def)

lemma main_config_fails:
  "GetConfig w = Some e \<Longrightarrow>
   snd (main w) = 1 \<and> callsOf (fst (main w)) = callsToConfig \<and>
   last (fst (main w)) = Log Error ''Error: %v.'' [AErr e]"
  by (simp add: main_def callsOf_def printVersion_def calls_defs Let_def
      split: prod.splits option.splits)

lemma main_become_fails:
  "GetConfig w = None \<Longrightarrow> Become w ''kfctl-lock'' = Some e \<Longrightarrow>
   snd (main w) = 1 \<and> callsOf (fst (main w)) = callsToBecome \<and>
   last (fst (main w)) = Log Error ''Error: %v.'' [AErr e]"
  by (simp add: main_def callsOf_def printVersion_def calls_defs Let_def
      split: prod.splits option.splits)

lemma main_new_fails:
  "leads w \<Longrightarrow> manager_New w (optionsOf w) = Some e \<Longrightarrow>
   snd (main w) = 1 \<and> callsOf (fst (main w)) = callsToNew w \<and>
   last (fst (main w)) = Log Error ''Error: %v.'' [AErr e]"
  using callsOf_managerOptions [of "fst (GetWatchNamespace w)"]
  by (auto simp: main_def leads_def optionsOf_def callsOf_def printVersion_def calls_defs Let_def
      split: prod.splits option.splits)

lemma main_scheme_fails:
  "leads w \<Longrightarrow> manager_New w (optionsOf w) = None \<Longrightarrow> AddToScheme w = Some e \<Longrightarrow>
   snd (main w) = 1 \<and> callsOf (fst (main w)) = callsToScheme w \<and>
   last (fst (main w)) = Log Error ''Error: %v.'' [AErr e]"
  using callsOf_managerOptions [of "fst (GetWatchNamespace w)"]
  by (auto simp: main_def leads_def optionsOf_def callsOf_def printVersion_def calls_defs Let_def
      split: prod.splits option.splits)

lemma main_controllers_fail:
  "leads w \<Longrightarrow> manager_New w (optionsOf w) = None \<Longrightarrow> AddToScheme w = None \<Longrightarrow>
   AddToManager w = Some e \<Longrightarrow>
   snd (main w) = 1 \<and> callsOf (fst (main w)) = callsToControllers w \<and>
   last (fst (main w)) = Log Error ''Error: %v.'' [AErr e]"
  using callsOf_managerOptions [of "fst (GetWatchNamespace w)"]
  by (auto simp: main_def leads_def optionsOf_def callsOf_def printVersion_def calls_defs Let_def
      split: prod.splits option.splits)

lemma main_bootstrapped:
  "bootstrapped w \<Longrightarrow>
   main w = (bootTrace w @ exposeMetrics w @ fst (startManager w), snd (startManager w))"
  by (auto simp: main_def bootstrapped_def leads_def optionsOf_def bootTrace_def Let_def
      split: prod.splits option.splits)

lemma callsOf_bootTrace: "callsOf (bootTrace w) = callsToControllers w"
  using callsOf_managerOptions [of "fst (GetWatchNamespace w)"]
  by (simp add: bootTrace_def callsOf_def printVersion_def calls_defs split: option.splits)

lemma guidance_bootTrace: "filter isGuidance (bootTrace w) = []"
  by (simp add: bootTrace_def printVersion_def managerOptions_def Let_def split: option.splits)

lemma startManager_trace:
  "fst (startManager w) = [Log Info ''Starting the Cmd.'' [], Call_mgr_Start]
     @ (case mgr_Start w of
          Some e \<Rightarrow> [Log Error ''Manager exited non-zero. Error: %v.'' [AErr e]]
        | None \<Rightarrow> [])"
  by (simp add: startManager_def split: option.splits)

lemma startManager_status: "snd (startManager w) = (if mgr_Start w = None then 0 else 1)"
  by (simp add: startManager_def split: option.splits)

lemma callsOf_startManager: "callsOf (fst (startManager w)) = [Call_mgr_Start]"
  by (simp add: startManager_trace callsOf_def split: option.splits)

lemma guidance_startManager: "filter isGuidance (fst (startManager w)) = []"
  by (simp add: startManager_trace split: option.splits)

lemma guidance_serveCRMetrics: "filter isGuidance (fst (serveCRMetrics w)) = []"
  by (simp add: serveCRMetrics_def Let_def split: prod.splits option.splits)

lemma guidance_exposeMetrics:
  "filter isGuidance (exposeMetrics w) =
     (if CreateServiceMonitors w (fst (GetOperatorNamespace_143 w)) = Some ErrServiceMonitorNotPresent
      then [Log Error installPrometheus [AErr ErrServiceMonitorNotPresent]] else [])"
  using guidance_serveCRMetrics [of w]
  by (auto simp: exposeMetrics_def split: prod.splits option.splits)

lemma exposeMetrics_ends:
  "CreateServiceMonitors w (fst (GetOperatorNamespace_143 w)) = Some ErrServiceMonitorNotPresent \<Longrightarrow>
   \<exists>ps. exposeMetrics w =
     ps @ [Call_CreateServiceMonitors (fst (GetOperatorNamespace_143 w)),
           Log Error couldNotCreateServiceMonitor [AErr ErrServiceMonitorNotPresent],
           Log Error installPrometheus [AErr ErrServiceMonitorNotPresent]]"
  by (auto simp: exposeMetrics_def split: prod.splits option.splits)

lemma exposeMetrics_calls_service:
  "Call_CreateMetricsService [metricsPort, operatorMetricsPort] \<in> set (exposeMetrics w) \<and>
   Call_CreateServiceMonitors (fst (GetOperatorNamespace_143 w)) \<in> set (exposeMetrics w)"
proof -
  obtain served err where s: "serveCRMetrics w = (served, err)"
    by (cases "serveCRMetrics w")
  obtain ns ignored where n: "GetOperatorNamespace_143 w = (ns, ignored)"
    by (cases "GetOperatorNamespace_143 w")
  show ?thesis by (simp add: exposeMetrics_def s n)
qed

lemma serveCRMetrics_namespace_fails:
  "GetGVKsFromAddToScheme w = (gvks, None) \<Longrightarrow> GetOperatorNamespace_175 w = (ns, Some e) \<Longrightarrow>
   serveCRMetrics w = ([Call_GetGVKsFromAddToScheme, Call_GetOperatorNamespace], Some e)"
  by (simp add: serveCRMetrics_def)

lemma exposeMetrics_namespace_fails:
  "GetGVKsFromAddToScheme w = (gvks, None) \<Longrightarrow> GetOperatorNamespace_175 w = (ns, Some e) \<Longrightarrow>
   \<exists>ss. exposeMetrics w =
     [Call_GetGVKsFromAddToScheme, Call_GetOperatorNamespace, Log Error couldNotServe [AErr e],
      Call_CreateMetricsService [metricsPort, operatorMetricsPort]] @ ss \<and>
     callsOf ss = [Call_GetOperatorNamespace,
                   Call_CreateServiceMonitors (fst (GetOperatorNamespace_143 w))]"
  by (auto simp: exposeMetrics_def serveCRMetrics_namespace_fails callsOf_def
      split: prod.splits option.splits)

lemma set_callsOf: "ev \<in> set (callsOf t) \<longleftrightarrow> ev \<in> set t \<and> isCall ev"
  by (simp add: callsOf_def)

lemma callsOf_bootstrapped:
  "bootstrapped w \<Longrightarrow>
   callsOf (fst (main w)) = callsToControllers w @ callsOf (exposeMetrics w) @ [Call_mgr_Start]"
  by (simp add: main_bootstrapped callsOf_append callsOf_bootTrace callsOf_startManager)

lemma main_calls_manager_New:
  assumes "leads w"
  shows "Call_manager_New (optionsOf w) \<in> set (fst (main w))"
proof -
  have "Call_manager_New (optionsOf w) \<in> set (callsOf (fst (main w)))"
  proof (cases "manager_New w (optionsOf w)")
    case (Some e)
    with assms main_new_fails [of w e] show ?thesis by (simp add: calls_defs)
  next
    case new: None
    show ?thesis
    proof (cases "AddToScheme w")
      case (Some e)
      with assms new main_scheme_fails [of w e] show ?thesis by (simp add: calls_defs)
    next
      case scheme: None
      show ?thesis
      proof (cases "AddToManager w")
        case (Some e)
        with assms new scheme main_controllers_fail [of w e] show ?thesis
          by (simp add: calls_defs)
      next
        case None
        with assms new scheme have "bootstrapped w" by (simp add: bootstrapped_def)
        then show ?thesis by (simp add: callsOf_bootstrapped calls_defs)
      qed
    qed
  qed
  then show ?thesis by (simp add: set_callsOf)
qed

lemma managerOptions_comma:
  "CHR '','' \<in> set wn \<Longrightarrow>
   Namespace (snd (managerOptions wn)) = [] \<and>
   NewCache (snd (managerOptions wn)) = Some (MultiNamespacedCacheBuilder (Split wn '',''))"
  by (simp add: managerOptions_def Contains_char Let_def)

lemma managerOptions_no_comma:
  "CHR '','' \<notin> set wn \<Longrightarrow>
   Namespace (snd (managerOptions wn)) = wn \<and> NewCache (snd (managerOptions wn)) = None"
  by (simp add: managerOptions_def Contains_char Let_def)

lemma Split_comma_parts: "n \<in> set (Split wn '','') \<Longrightarrow> CHR '','' \<notin> set n"
  using Split_no_sep [of "'',''" n wn] by (simp add: Contains_char)

lemma Split_team: "Split ''team-a,team-b'' '','' = [''team-a'', ''team-b'']"
  by (simp add: Split_unfold)

lemma bind_address: "metricsHost @ '':'' @ Sprintf_d metricsPort = ''0.0.0.0:8383''"
  by (simp add: metricsHost_def metricsPort_def Sprintf_d_def decimal.simps)

lemma bootstrapped_worlds:
  "bootstrapped world_ok" "bootstrapped world_metrics_down" "bootstrapped world_no_prometheus"
  "bootstrapped world_monitor_error" "bootstrapped world_no_operator_namespace"
  by (simp_all add: bootstrapped_def leads_def world_defs)

lemma main_ends_with_start:
  assumes b: "bootstrapped w"
    and csm: "CreateServiceMonitors w (fst (GetOperatorNamespace_143 w)) = Some ErrServiceMonitorNotPresent"
  shows "sublist
     [Call_CreateServiceMonitors (fst (GetOperatorNamespace_143 w)),
      Log Error couldNotCreateServiceMonitor [AErr ErrServiceMonitorNotPresent],
      Log Error installPrometheus [AErr ErrServiceMonitorNotPresent],
      Log Info ''Starting the Cmd.'' [], Call_mgr_Start]
     (fst (main w))"
proof -
  from exposeMetrics_ends [OF csm] obtain ps where
    ps: "exposeMetrics w =
      ps @ [Call_CreateServiceMonitors (fst (GetOperatorNamespace_143 w)),
            Log Error couldNotCreateServiceMonitor [AErr ErrServiceMonitorNotPresent],
            Log Error installPrometheus [AErr ErrServiceMonitorNotPresent]]" ..
  obtain ss where ss: "fst (startManager w) = [Log Info ''Starting the Cmd.'' [], Call_mgr_Start] @ ss"
    using startManager_trace [of w] by blast
  have "fst (main w) = (bootTrace w @ ps)
      @ [Call_CreateServiceMonitors (fst (GetOperatorNamespace_143 w)),
         Log Error couldNotCreateServiceMonitor [AErr ErrServiceMonitorNotPresent],
         Log Error installPrometheus [AErr ErrServiceMonitorNotPresent],
         Log Info ''Starting the Cmd.'' [], Call_mgr_Start] @ ss"
    by (simp add: main_bootstrapped [OF b] ps ss)
  then show ?thesis unfolding sublist_def by blast
qed

lemma guidance_main:
  "bootstrapped w \<Longrightarrow>
   filter isGuidance (fst (main w)) =
     (if CreateServiceMonitors w (fst (GetOperatorNamespace_143 w)) = Some ErrServiceMonitorNotPresent
      then [Log Error installPrometheus [AErr ErrServiceMonitorNotPresent]] else [])"
  by (simp add: main_bootstrapped guidance_bootTrace guidance_exposeMetrics guidance_startManager)

text \<open>
  C5. For a watch-namespace string with a comma, the options main builds have an empty
  Namespace and a NewCache that is the multi-namespace cache builder over the split of
  the string at its commas; the parts of the split, joined by commas in their order, are
  the string, and no part has a comma. For a string without a comma the Namespace is the
  string and NewCache stays nil. These options are what main passes to manager.New.
\<close>

theorem managerOptions_watch_namespace:
  "(CHR '','' \<in> set wn \<longrightarrow>
      Namespace (snd (managerOptions wn)) = [] \<and>
      NewCache (snd (managerOptions wn)) = Some (MultiNamespacedCacheBuilder (Split wn '','')) \<and>
      Join (Split wn '','') '','' = wn \<and>
      (\<forall>n \<in> set (Split wn '',''). CHR '','' \<notin> set n)) \<and>
   (CHR '','' \<notin> set wn \<longrightarrow>
      Namespace (snd (managerOptions wn)) = wn \<and> NewCache (snd (managerOptions wn)) = None) \<and>
   (leads w \<and> fst (GetWatchNamespace w) = wn \<longrightarrow>
      Call_manager_New (snd (managerOptions wn)) \<in> set (fst (main w)))"
proof (intro conjI impI)
  assume comma: "CHR '','' \<in> set wn"
  from managerOptions_comma [OF comma]
  show "Namespace (snd (managerOptions wn)) = []"
    and "NewCache (snd (managerOptions wn)) = Some (MultiNamespacedCacheBuilder (Split wn '',''))"
    by simp_all
  show "Join (Split wn '','') '','' = wn" by (simp add: Join_Split)
  show "\<forall>n \<in> set (Split wn '',''). CHR '','' \<notin> set n" by (simp add: Split_comma_parts)
next
  assume none: "CHR '','' \<notin> set wn"
  from managerOptions_no_comma [OF none]
  show "Namespace (snd (managerOptions wn)) = wn" and "NewCache (snd (managerOptions wn)) = None"
    by simp_all
next
  assume "leads w \<and> fst (GetWatchNamespace w) = wn"
  with main_calls_manager_New [of w]
  show "Call_manager_New (snd (managerOptions wn)) \<in> set (fst (main w))"
    by (simp add: optionsOf_def)
qed

theorem managerOptions_watch_namespace_witness:
  "CHR '','' \<in> set ''team-a,team-b'' \<and>
   snd (managerOptions ''team-a,team-b'') =
     \<lparr>Namespace = [], MapperProvider = NewDynamicRESTMapper,
      MetricsBindAddress = ''0.0.0.0:8383'',
      NewCache = Some (MultiNamespacedCacheBuilder [''team-a'', ''team-b''])\<rparr> \<and>
   Join [''team-a'', ''team-b''] '','' = ''team-a,team-b'' \<and>
   CHR '','' \<notin> set ''ns1'' \<and>
   Namespace (snd (managerOptions ''ns1'')) = ''ns1'' \<and>
   NewCache (snd (managerOptions ''ns1'')) = None \<and>
   Namespace (snd (managerOptions [])) = [] \<and> NewCache (snd (managerOptions [])) = None \<and>
   leads world_ok \<and> fst (GetWatchNamespace world_ok) = ''team-a,team-b'' \<and>
   Call_manager_New (snd (managerOptions ''team-a,team-b'')) \<in> set (fst (main world_ok))"
proof -
  have l: "leads world_ok" by (simp add: leads_def world_ok_def)
  have n: "fst (GetWatchNamespace world_ok) = ''team-a,team-b''" by (simp add: world_ok_def)
  have o: "snd (managerOptions ''team-a,team-b'') =
     \<lparr>Namespace = [], MapperProvider = NewDynamicRESTMapper,
      MetricsBindAddress = ''0.0.0.0:8383'',
      NewCache = Some (MultiNamespacedCacheBuilder [''team-a'', ''team-b''])\<rparr>"
    using bind_address by (simp add: managerOptions_def Contains_char Split_team Let_def)
  show ?thesis
    using l n o
      managerOptions_watch_namespace [of "''team-a,team-b''" world_ok]
      managerOptions_watch_namespace [of "''ns1''" world_ok]
      managerOptions_watch_namespace [of "[]" world_ok]
    by (simp add: Split_team)
qed

text \<open>
  C6. When the API config is read and \<^verbatim>\<open>leader.Become\<close> with the lock name kfctl-lock
  returns an error, main logs that error at level Error as its last action and the
  process ends with status 1; its calls are the three up to the one call of Become, so
  \<^verbatim>\<open>manager.New\<close> is never called and Become is not tried again.
\<close>

theorem become_failure_exits:
  assumes "GetConfig w = None" and "Become w ''kfctl-lock'' = Some e"
  shows "snd (main w) = 1 \<and>
         last (fst (main w)) = Log Error ''Error: %v.'' [AErr e] \<and>
         callsOf (fst (main w)) =
           [Call_GetWatchNamespace, Call_GetConfig, Call_Become ''kfctl-lock''] \<and>
         (\<forall>options. Call_manager_New options \<notin> set (fst (main w)))"
proof -
  note fails = main_become_fails [OF assms]
  have "Call_manager_New options \<notin> set (callsOf (fst (main w)))" for options
    using fails by (simp add: calls_defs)
  then have "\<forall>options. Call_manager_New options \<notin> set (fst (main w))"
    by (simp add: set_callsOf)
  with fails show ?thesis by (simp add: calls_defs)
qed

theorem become_failure_exits_witness:
  "GetConfig world_no_lock = None \<and>
   Become world_no_lock ''kfctl-lock'' = Some (ErrOther ''lock not acquired'') \<and>
   snd (main world_no_lock) = 1 \<and>
   last (fst (main world_no_lock)) = Log Error ''Error: %v.'' [AErr (ErrOther ''lock not acquired'')] \<and>
   callsOf (fst (main world_no_lock)) =
     [Call_GetWatchNamespace, Call_GetConfig, Call_Become ''kfctl-lock'']"
proof -
  have c: "GetConfig world_no_lock = None" by (simp add: world_defs)
  have b: "Become world_no_lock ''kfctl-lock'' = Some (ErrOther ''lock not acquired'')"
    by (simp add: world_defs)
  show ?thesis using c b become_failure_exits [OF c b] by simp
qed

lemma exposeMetrics_logs_serve_failure:
  assumes "snd (serveCRMetrics w) = Some es"
  shows "\<exists>ss. exposeMetrics w =
     fst (serveCRMetrics w)
     @ [Log Error couldNotServe [AErr es],
        Call_CreateMetricsService [metricsPort, operatorMetricsPort]] @ ss"
proof -
  obtain served where s: "serveCRMetrics w = (served, Some es)"
    using assms by (cases "serveCRMetrics w") simp
  show ?thesis by (simp add: exposeMetrics_def s)
qed

lemma exposeMetrics_logs_service_failure:
  assumes "CreateMetricsService w = Some ec"
  shows "\<exists>ps ss. exposeMetrics w =
     ps @ [Call_CreateMetricsService [metricsPort, operatorMetricsPort],
           Log Error couldNotCreateService [AErr ec],
           Call_GetOperatorNamespace,
           Call_CreateServiceMonitors (fst (GetOperatorNamespace_143 w))] @ ss"
proof -
  obtain served err where s: "serveCRMetrics w = (served, err)"
    by (cases "serveCRMetrics w")
  obtain ns ignored where n: "GetOperatorNamespace_143 w = (ns, ignored)"
    by (cases "GetOperatorNamespace_143 w")
  define ps where "ps = served @ (case err of
      Some e \<Rightarrow> [Log Error couldNotServe [AErr e]] | None \<Rightarrow> [])"
  define ss where "ss = (case CreateServiceMonitors w ns of
      Some e \<Rightarrow>
        [Log Error couldNotCreateServiceMonitor [AErr e]]
        @ (if e = ErrServiceMonitorNotPresent
           then [Log Error installPrometheus [AErr e]] else [])
    | None \<Rightarrow> [])"
  have "exposeMetrics w =
     ps @ [Call_CreateMetricsService [metricsPort, operatorMetricsPort],
           Log Error couldNotCreateService [AErr ec],
           Call_GetOperatorNamespace,
           Call_CreateServiceMonitors (fst (GetOperatorNamespace_143 w))] @ ss"
    by (simp add: exposeMetrics_def s n assms ps_def ss_def)
  then show ?thesis by blast
qed

lemma exposeMetrics_logs_monitor_failure:
  assumes "CreateServiceMonitors w (fst (GetOperatorNamespace_143 w)) = Some em"
  shows "\<exists>ps. exposeMetrics w =
     ps @ [Call_CreateServiceMonitors (fst (GetOperatorNamespace_143 w)),
           Log Error couldNotCreateServiceMonitor [AErr em]]
        @ (if em = ErrServiceMonitorNotPresent
           then [Log Error installPrometheus [AErr em]] else [])"
proof -
  obtain served err where s: "serveCRMetrics w = (served, err)"
    by (cases "serveCRMetrics w")
  obtain ns ignored where n: "GetOperatorNamespace_143 w = (ns, ignored)"
    by (cases "GetOperatorNamespace_143 w")
  define ps where "ps = served
      @ (case err of Some e \<Rightarrow> [Log Error couldNotServe [AErr e]] | None \<Rightarrow> [])
      @ [Call_CreateMetricsService [metricsPort, operatorMetricsPort]]
      @ (case CreateMetricsService w of
           Some e \<Rightarrow> [Log Error couldNotCreateService [AErr e]] | None \<Rightarrow> [])
      @ [Call_GetOperatorNamespace]"
  from assms n have csm: "CreateServiceMonitors w ns = Some em" by simp
  have "exposeMetrics w =
     ps @ [Call_CreateServiceMonitors (fst (GetOperatorNamespace_143 w)),
           Log Error couldNotCreateServiceMonitor [AErr em]]
        @ (if em = ErrServiceMonitorNotPresent
           then [Log Error installPrometheus [AErr em]] else [])"
    by (simp add: exposeMetrics_def s n csm ps_def)
  then show ?thesis by blast
qed

lemma main_logs_serve_failure:
  assumes b: "bootstrapped w" and f: "snd (serveCRMetrics w) = Some es"
  shows "sublist
     (fst (serveCRMetrics w)
      @ [Log Error couldNotServe [AErr es],
         Call_CreateMetricsService [metricsPort, operatorMetricsPort]])
     (fst (main w))"
proof -
  from exposeMetrics_logs_serve_failure [OF f] obtain ss where
    "exposeMetrics w =
       fst (serveCRMetrics w)
       @ [Log Error couldNotServe [AErr es],
          Call_CreateMetricsService [metricsPort, operatorMetricsPort]] @ ss" ..
  then have "fst (main w) = bootTrace w
      @ (fst (serveCRMetrics w)
         @ [Log Error couldNotServe [AErr es],
            Call_CreateMetricsService [metricsPort, operatorMetricsPort]])
      @ (ss @ fst (startManager w))"
    by (simp add: main_bootstrapped [OF b])
  then show ?thesis unfolding sublist_def by blast
qed

lemma main_logs_service_failure:
  assumes b: "bootstrapped w" and f: "CreateMetricsService w = Some ec"
  shows "sublist
     [Call_CreateMetricsService [metricsPort, operatorMetricsPort],
      Log Error couldNotCreateService [AErr ec],
      Call_GetOperatorNamespace,
      Call_CreateServiceMonitors (fst (GetOperatorNamespace_143 w))]
     (fst (main w))"
proof -
  from exposeMetrics_logs_service_failure [OF f] obtain ps ss where
    "exposeMetrics w =
       ps @ [Call_CreateMetricsService [metricsPort, operatorMetricsPort],
             Log Error couldNotCreateService [AErr ec],
             Call_GetOperatorNamespace,
             Call_CreateServiceMonitors (fst (GetOperatorNamespace_143 w))] @ ss"
    by blast
  then have "fst (main w) = (bootTrace w @ ps)
      @ [Call_CreateMetricsService [metricsPort, operatorMetricsPort],
         Log Error couldNotCreateService [AErr ec],
         Call_GetOperatorNamespace,
         Call_CreateServiceMonitors (fst (GetOperatorNamespace_143 w))]
      @ (ss @ fst (startManager w))"
    by (simp add: main_bootstrapped [OF b])
  then show ?thesis unfolding sublist_def by blast
qed

lemma main_logs_monitor_failure:
  assumes b: "bootstrapped w"
    and f: "CreateServiceMonitors w (fst (GetOperatorNamespace_143 w)) = Some em"
  shows "sublist
     ([Call_CreateServiceMonitors (fst (GetOperatorNamespace_143 w)),
       Log Error couldNotCreateServiceMonitor [AErr em]]
      @ (if em = ErrServiceMonitorNotPresent
         then [Log Error installPrometheus [AErr em]] else [])
      @ [Log Info ''Starting the Cmd.'' [], Call_mgr_Start])
     (fst (main w))"
proof -
  from exposeMetrics_logs_monitor_failure [OF f] obtain ps where
    ps: "exposeMetrics w =
       ps @ [Call_CreateServiceMonitors (fst (GetOperatorNamespace_143 w)),
             Log Error couldNotCreateServiceMonitor [AErr em]]
          @ (if em = ErrServiceMonitorNotPresent
             then [Log Error installPrometheus [AErr em]] else [])" ..
  obtain ss where ss: "fst (startManager w) = [Log Info ''Starting the Cmd.'' [], Call_mgr_Start] @ ss"
    using startManager_trace [of w] by blast
  have "fst (main w) = (bootTrace w @ ps)
      @ ([Call_CreateServiceMonitors (fst (GetOperatorNamespace_143 w)),
          Log Error couldNotCreateServiceMonitor [AErr em]]
         @ (if em = ErrServiceMonitorNotPresent
            then [Log Error installPrometheus [AErr em]] else [])
         @ [Log Info ''Starting the Cmd.'' [], Call_mgr_Start])
      @ ss"
    by (simp add: main_bootstrapped [OF b] ps ss)
  then show ?thesis unfolding sublist_def by blast
qed

lemma main_logs_start_failure:
  assumes b: "bootstrapped w" and f: "mgr_Start w = Some er"
  shows "last (fst (main w)) = Log Error ''Manager exited non-zero. Error: %v.'' [AErr er]"
  by (simp add: main_bootstrapped [OF b] startManager_trace f)

text \<open>
  C7, as the code has it. A failure of the API config read, of leadership acquisition,
  of manager construction, of scheme registration or of controller registration is
  logged at level Error as the last action of the process, which ends with status 1,
  and no later call is made. When all five succeed, the metrics steps run whatever they
  return, and a failure of one of them is logged at level Error and the next step
  follows: the error of serveCRMetrics is logged right after its calls and the metrics
  Service is asked for next; the error of \<^verbatim>\<open>CreateMetricsService\<close> is logged right
  after the call and the ServiceMonitors are asked for next; the error of
  \<^verbatim>\<open>CreateServiceMonitors\<close> is logged right after the call and the manager is started
  next. \<^verbatim>\<open>mgr.Start\<close> is called after the metrics steps, and the exit status is 1
  exactly when \<^verbatim>\<open>mgr.Start\<close> returns an error, which is then logged last.
\<close>

theorem fatal_steps_halt_metrics_steps_continue:
  "(GetConfig w = Some e \<longrightarrow>
      snd (main w) = 1 \<and> callsOf (fst (main w)) = callsToConfig \<and>
      last (fst (main w)) = Log Error ''Error: %v.'' [AErr e]) \<and>
   (GetConfig w = None \<and> Become w ''kfctl-lock'' = Some e \<longrightarrow>
      snd (main w) = 1 \<and> callsOf (fst (main w)) = callsToBecome \<and>
      last (fst (main w)) = Log Error ''Error: %v.'' [AErr e]) \<and>
   (leads w \<and> manager_New w (optionsOf w) = Some e \<longrightarrow>
      snd (main w) = 1 \<and> callsOf (fst (main w)) = callsToNew w \<and>
      last (fst (main w)) = Log Error ''Error: %v.'' [AErr e]) \<and>
   (leads w \<and> manager_New w (optionsOf w) = None \<and> AddToScheme w = Some e \<longrightarrow>
      snd (main w) = 1 \<and> callsOf (fst (main w)) = callsToScheme w \<and>
      last (fst (main w)) = Log Error ''Error: %v.'' [AErr e]) \<and>
   (leads w \<and> manager_New w (optionsOf w) = None \<and> AddToScheme w = None \<and>
    AddToManager w = Some e \<longrightarrow>
      snd (main w) = 1 \<and> callsOf (fst (main w)) = callsToControllers w \<and>
      last (fst (main w)) = Log Error ''Error: %v.'' [AErr e]) \<and>
   (bootstrapped w \<longrightarrow>
      callsOf (fst (main w)) = callsToControllers w @ callsOf (exposeMetrics w) @ [Call_mgr_Start] \<and>
      Call_CreateMetricsService [metricsPort, operatorMetricsPort] \<in> set (exposeMetrics w) \<and>
      Call_CreateServiceMonitors (fst (GetOperatorNamespace_143 w)) \<in> set (exposeMetrics w) \<and>
      snd (main w) = (if mgr_Start w = None then 0 else 1)) \<and>
   (bootstrapped w \<and> snd (serveCRMetrics w) = Some es \<longrightarrow>
      sublist
        (fst (serveCRMetrics w)
         @ [Log Error couldNotServe [AErr es],
            Call_CreateMetricsService [metricsPort, operatorMetricsPort]])
        (fst (main w))) \<and>
   (bootstrapped w \<and> CreateMetricsService w = Some ec \<longrightarrow>
      sublist
        [Call_CreateMetricsService [metricsPort, operatorMetricsPort],
         Log Error couldNotCreateService [AErr ec],
         Call_GetOperatorNamespace,
         Call_CreateServiceMonitors (fst (GetOperatorNamespace_143 w))]
        (fst (main w))) \<and>
   (bootstrapped w \<and> CreateServiceMonitors w (fst (GetOperatorNamespace_143 w)) = Some em \<longrightarrow>
      sublist
        ([Call_CreateServiceMonitors (fst (GetOperatorNamespace_143 w)),
          Log Error couldNotCreateServiceMonitor [AErr em]]
         @ (if em = ErrServiceMonitorNotPresent
            then [Log Error installPrometheus [AErr em]] else [])
         @ [Log Info ''Starting the Cmd.'' [], Call_mgr_Start])
        (fst (main w))) \<and>
   (bootstrapped w \<and> mgr_Start w = Some er \<longrightarrow>
      last (fst (main w)) = Log Error ''Manager exited non-zero. Error: %v.'' [AErr er])"
proof -
  have c1: "GetConfig w = Some e \<longrightarrow>
      snd (main w) = 1 \<and> callsOf (fst (main w)) = callsToConfig \<and>
      last (fst (main w)) = Log Error ''Error: %v.'' [AErr e]"
    using main_config_fails [of w e] by blast
  have c2: "GetConfig w = None \<and> Become w ''kfctl-lock'' = Some e \<longrightarrow>
      snd (main w) = 1 \<and> callsOf (fst (main w)) = callsToBecome \<and>
      last (fst (main w)) = Log Error ''Error: %v.'' [AErr e]"
    using main_become_fails [of w e] by blast
  have c3: "leads w \<and> manager_New w (optionsOf w) = Some e \<longrightarrow>
      snd (main w) = 1 \<and> callsOf (fst (main w)) = callsToNew w \<and>
      last (fst (main w)) = Log Error ''Error: %v.'' [AErr e]"
    using main_new_fails [of w e] by blast
  have c4: "leads w \<and> manager_New w (optionsOf w) = None \<and> AddToScheme w = Some e \<longrightarrow>
      snd (main w) = 1 \<and> callsOf (fst (main w)) = callsToScheme w \<and>
      last (fst (main w)) = Log Error ''Error: %v.'' [AErr e]"
    using main_scheme_fails [of w e] by blast
  have c5: "leads w \<and> manager_New w (optionsOf w) = None \<and> AddToScheme w = None \<and>
    AddToManager w = Some e \<longrightarrow>
      snd (main w) = 1 \<and> callsOf (fst (main w)) = callsToControllers w \<and>
      last (fst (main w)) = Log Error ''Error: %v.'' [AErr e]"
    using main_controllers_fail [of w e] by blast
  have c6: "bootstrapped w \<longrightarrow>
      callsOf (fst (main w)) = callsToControllers w @ callsOf (exposeMetrics w) @ [Call_mgr_Start] \<and>
      Call_CreateMetricsService [metricsPort, operatorMetricsPort] \<in> set (exposeMetrics w) \<and>
      Call_CreateServiceMonitors (fst (GetOperatorNamespace_143 w)) \<in> set (exposeMetrics w) \<and>
      snd (main w) = (if mgr_Start w = None then 0 else 1)"
  proof
    assume b: "bootstrapped w"
    have "snd (main w) = (if mgr_Start w = None then 0 else 1)"
      by (simp add: main_bootstrapped [OF b] startManager_status)
    with callsOf_bootstrapped [OF b] exposeMetrics_calls_service [of w]
    show "callsOf (fst (main w)) = callsToControllers w @ callsOf (exposeMetrics w) @ [Call_mgr_Start] \<and>
      Call_CreateMetricsService [metricsPort, operatorMetricsPort] \<in> set (exposeMetrics w) \<and>
      Call_CreateServiceMonitors (fst (GetOperatorNamespace_143 w)) \<in> set (exposeMetrics w) \<and>
      snd (main w) = (if mgr_Start w = None then 0 else 1)"
      by blast
  qed
  have c7: "bootstrapped w \<and> snd (serveCRMetrics w) = Some es \<longrightarrow>
      sublist
        (fst (serveCRMetrics w)
         @ [Log Error couldNotServe [AErr es],
            Call_CreateMetricsService [metricsPort, operatorMetricsPort]])
        (fst (main w))"
    using main_logs_serve_failure [of w es] by blast
  have c8: "bootstrapped w \<and> CreateMetricsService w = Some ec \<longrightarrow>
      sublist
        [Call_CreateMetricsService [metricsPort, operatorMetricsPort],
         Log Error couldNotCreateService [AErr ec],
         Call_GetOperatorNamespace,
         Call_CreateServiceMonitors (fst (GetOperatorNamespace_143 w))]
        (fst (main w))"
    using main_logs_service_failure [of w ec] by blast
  have c9: "bootstrapped w \<and> CreateServiceMonitors w (fst (GetOperatorNamespace_143 w)) = Some em \<longrightarrow>
      sublist
        ([Call_CreateServiceMonitors (fst (GetOperatorNamespace_143 w)),
          Log Error couldNotCreateServiceMonitor [AErr em]]
         @ (if em = ErrServiceMonitorNotPresent
            then [Log Error installPrometheus [AErr em]] else [])
         @ [Log Info ''Starting the Cmd.'' [], Call_mgr_Start])
        (fst (main w))"
    using main_logs_monitor_failure [of w em] by blast
  have c10: "bootstrapped w \<and> mgr_Start w = Some er \<longrightarrow>
      last (fst (main w)) = Log Error ''Manager exited non-zero. Error: %v.'' [AErr er]"
    using main_logs_start_failure [of w er] by blast
  from c1 c2 c3 c4 c5 c6 c7 c8 c9 c10 show ?thesis by (intro conjI)
qed

theorem fatal_steps_halt_metrics_steps_continue_witness:
  "GetConfig world_no_config = Some (ErrOther ''no kubeconfig'') \<and>
   snd (main world_no_config) = 1 \<and>
   callsOf (fst (main world_no_config)) = [Call_GetWatchNamespace, Call_GetConfig] \<and>
   last (fst (main world_no_config)) = Log Error ''Error: %v.'' [AErr (ErrOther ''no kubeconfig'')] \<and>
   GetConfig world_no_lock = None \<and>
   Become world_no_lock ''kfctl-lock'' = Some (ErrOther ''lock not acquired'') \<and>
   snd (main world_no_lock) = 1 \<and>
   leads world_no_manager \<and>
   manager_New world_no_manager (optionsOf world_no_manager) = Some (ErrOther ''no manager'') \<and>
   snd (main world_no_manager) = 1 \<and>
   callsOf (fst (main world_no_manager)) = callsToNew world_no_manager \<and>
   leads world_no_scheme \<and> AddToScheme world_no_scheme = Some (ErrOther ''scheme'') \<and>
   snd (main world_no_scheme) = 1 \<and>
   callsOf (fst (main world_no_scheme)) = callsToNew world_no_scheme @ [Call_AddToScheme] \<and>
   leads world_no_controllers \<and>
   AddToManager world_no_controllers = Some (ErrOther ''controller'') \<and>
   snd (main world_no_controllers) = 1 \<and>
   last (fst (main world_no_controllers)) = Log Error ''Error: %v.'' [AErr (ErrOther ''controller'')] \<and>
   bootstrapped world_metrics_down \<and>
   snd (serveCRMetrics world_metrics_down) = Some (ErrOther ''address already in use'') \<and>
   sublist
     (fst (serveCRMetrics world_metrics_down)
      @ [Log Error couldNotServe [AErr (ErrOther ''address already in use'')],
         Call_CreateMetricsService [metricsPort, operatorMetricsPort]])
     (fst (main world_metrics_down)) \<and>
   CreateMetricsService world_metrics_down = Some (ErrOther ''failed to create service'') \<and>
   sublist
     [Call_CreateMetricsService [metricsPort, operatorMetricsPort],
      Log Error couldNotCreateService [AErr (ErrOther ''failed to create service'')],
      Call_GetOperatorNamespace, Call_CreateServiceMonitors ''opendatahub'']
     (fst (main world_metrics_down)) \<and>
   snd (main world_metrics_down) = 0 \<and>
   bootstrapped world_monitor_error \<and>
   CreateServiceMonitors world_monitor_error ''opendatahub'' = Some (ErrOther ''forbidden'') \<and>
   sublist
     [Call_CreateServiceMonitors ''opendatahub'',
      Log Error couldNotCreateServiceMonitor [AErr (ErrOther ''forbidden'')],
      Log Info ''Starting the Cmd.'' [], Call_mgr_Start]
     (fst (main world_monitor_error)) \<and>
   bootstrapped world_start_fails \<and>
   mgr_Start world_start_fails = Some (ErrOther ''manager stopped'') \<and>
   snd (main world_start_fails) = 1 \<and>
   last (fst (main world_start_fails)) =
     Log Error ''Manager exited non-zero. Error: %v.'' [AErr (ErrOther ''manager stopped'')]"
proof -
  have h: "GetConfig world_no_config = Some (ErrOther ''no kubeconfig'')"
    "GetConfig world_no_lock = None"
    "Become world_no_lock ''kfctl-lock'' = Some (ErrOther ''lock not acquired'')"
    "leads world_no_manager"
    "manager_New world_no_manager (optionsOf world_no_manager) = Some (ErrOther ''no manager'')"
    "manager_New world_no_scheme (optionsOf world_no_scheme) = None"
    "manager_New world_no_controllers (optionsOf world_no_controllers) = None"
    "leads world_no_scheme" "AddToScheme world_no_scheme = Some (ErrOther ''scheme'')"
    "leads world_no_controllers" "AddToScheme world_no_controllers = None"
    "AddToManager world_no_controllers = Some (ErrOther ''controller'')"
    "bootstrapped world_metrics_down" "bootstrapped world_start_fails"
    "bootstrapped world_monitor_error"
    "mgr_Start world_metrics_down = None"
    "mgr_Start world_start_fails = Some (ErrOther ''manager stopped'')"
    "CreateMetricsService world_metrics_down = Some (ErrOther ''failed to create service'')"
    "fst (GetOperatorNamespace_143 world_metrics_down) = ''opendatahub''"
    "fst (GetOperatorNamespace_143 world_monitor_error) = ''opendatahub''"
    "CreateServiceMonitors world_monitor_error ''opendatahub'' = Some (ErrOther ''forbidden'')"
    by (simp_all add: bootstrapped_def leads_def world_defs fatal_world_defs)
  have s: "snd (serveCRMetrics world_metrics_down) = Some (ErrOther ''address already in use'')"
    by (simp add: serveCRMetrics_def world_defs Let_def)
  show ?thesis
    using h s
      fatal_steps_halt_metrics_steps_continue [of world_no_config "ErrOther ''no kubeconfig''"]
      fatal_steps_halt_metrics_steps_continue [of world_no_lock "ErrOther ''lock not acquired''"]
      fatal_steps_halt_metrics_steps_continue [of world_no_manager "ErrOther ''no manager''"]
      fatal_steps_halt_metrics_steps_continue [of world_no_scheme "ErrOther ''scheme''"]
      fatal_steps_halt_metrics_steps_continue [of world_no_controllers "ErrOther ''controller''"]
      fatal_steps_halt_metrics_steps_continue [of world_metrics_down _
        "ErrOther ''address already in use''" "ErrOther ''failed to create service''"]
      fatal_steps_halt_metrics_steps_continue [of world_monitor_error _ _ _ "ErrOther ''forbidden''"]
      fatal_steps_halt_metrics_steps_continue [of world_start_fails _ _ _ _
        "ErrOther ''manager stopped''"]
    by (simp add: calls_defs)
qed

text \<open>
  The claim C7 as stated fails for the Metrics Publisher: in a world where
  \<^verbatim>\<open>GenerateAndServeCRMetrics\<close> and \<^verbatim>\<open>CreateMetricsService\<close> both return an error,
  serveCRMetrics returns an error, each of the two errors is logged once, at level
  Error, and yet main goes on to \<^verbatim>\<open>mgr.Start\<close> and the process ends with status 0.
\<close>

theorem metrics_failure_is_not_fatal:
  "snd (serveCRMetrics world_metrics_down) = Some (ErrOther ''address already in use'') \<and>
   CreateMetricsService world_metrics_down = Some (ErrOther ''failed to create service'') \<and>
   logsAbout (ErrOther ''address already in use'') (fst (main world_metrics_down)) =
     [Log Error couldNotServe [AErr (ErrOther ''address already in use'')]] \<and>
   logsAbout (ErrOther ''failed to create service'') (fst (main world_metrics_down)) =
     [Log Error couldNotCreateService [AErr (ErrOther ''failed to create service'')]] \<and>
   Call_mgr_Start \<in> set (fst (main world_metrics_down)) \<and>
   snd (main world_metrics_down) = 0"
proof -
  have b: "bootstrapped world_metrics_down" by (rule bootstrapped_worlds)
  have "snd (serveCRMetrics world_metrics_down) = Some (ErrOther ''address already in use'')"
    by (simp add: serveCRMetrics_def world_defs Let_def)
  moreover have "CreateMetricsService world_metrics_down = Some (ErrOther ''failed to create service'')"
    by (simp add: world_defs)
  moreover have "logsAbout (ErrOther ''address already in use'') (fst (main world_metrics_down)) =
      [Log Error couldNotServe [AErr (ErrOther ''address already in use'')]]"
    by (simp add: main_def logsAbout_def printVersion_def managerOptions_def Contains_char
        exposeMetrics_def serveCRMetrics_def startManager_def world_defs Let_def)
  moreover have "logsAbout (ErrOther ''failed to create service'') (fst (main world_metrics_down)) =
      [Log Error couldNotCreateService [AErr (ErrOther ''failed to create service'')]]"
    by (simp add: main_def logsAbout_def printVersion_def managerOptions_def Contains_char
        exposeMetrics_def serveCRMetrics_def startManager_def world_defs Let_def)
  moreover have "Call_mgr_Start \<in> set (fst (main world_metrics_down))"
    by (simp add: main_bootstrapped [OF b] startManager_trace)
  moreover have "snd (main world_metrics_down) = 0"
    by (simp add: main_bootstrapped [OF b] startManager_status) (simp add: world_defs)
  ultimately show ?thesis by simp
qed

text \<open>
  The claim C8 as stated fails on the severity: in a world where only
  \<^verbatim>\<open>CreateServiceMonitors\<close> fails, and with \<^verbatim>\<open>ErrServiceMonitorNotPresent\<close>, the two
  log lines about that error are both at level Error, none is at a lower level, and
  another error of \<^verbatim>\<open>CreateServiceMonitors\<close> is logged at level Error as well.
\<close>

theorem not_present_is_logged_at_error_level:
  "CreateServiceMonitors world_no_prometheus ''opendatahub'' = Some ErrServiceMonitorNotPresent \<and>
   logsAbout ErrServiceMonitorNotPresent (fst (main world_no_prometheus)) =
     [Log Error couldNotCreateServiceMonitor [AErr ErrServiceMonitorNotPresent],
      Log Error installPrometheus [AErr ErrServiceMonitorNotPresent]] \<and>
   \<not> loggedBelow Error ErrServiceMonitorNotPresent (fst (main world_no_prometheus)) \<and>
   logsAbout (ErrOther ''forbidden'') (fst (main world_monitor_error)) =
     [Log Error couldNotCreateServiceMonitor [AErr (ErrOther ''forbidden'')]]"
proof -
  have np: "logsAbout ErrServiceMonitorNotPresent (fst (main world_no_prometheus)) =
     [Log Error couldNotCreateServiceMonitor [AErr ErrServiceMonitorNotPresent],
      Log Error installPrometheus [AErr ErrServiceMonitorNotPresent]]"
    by (simp add: main_def logsAbout_def printVersion_def managerOptions_def Contains_char
        exposeMetrics_def serveCRMetrics_def startManager_def world_defs Let_def)
  have me: "logsAbout (ErrOther ''forbidden'') (fst (main world_monitor_error)) =
     [Log Error couldNotCreateServiceMonitor [AErr (ErrOther ''forbidden'')]]"
    by (simp add: main_def logsAbout_def printVersion_def managerOptions_def Contains_char
        exposeMetrics_def serveCRMetrics_def startManager_def world_defs Let_def)
  have "\<not> loggedBelow Error ErrServiceMonitorNotPresent (fst (main world_no_prometheus))"
    unfolding loggedBelow_def np by simp
  moreover have "CreateServiceMonitors world_no_prometheus ''opendatahub'' =
      Some ErrServiceMonitorNotPresent"
    by (simp add: world_defs)
  ultimately show ?thesis using np me by simp
qed

text \<open>
  C8, as the code has it. When every step before the metrics steps succeeds and
  \<^verbatim>\<open>CreateServiceMonitors\<close> returns \<^verbatim>\<open>ErrServiceMonitorNotPresent\<close>, main logs the
  failure at level Error, then the guidance to install prometheus-operator, again at level
  Error, and then starts the manager: \<^verbatim>\<open>mgr.Start\<close> is called next. The guidance line is
  what tells this error from any other: it is logged once for this error and never
  otherwise. The exit status is 1 exactly when \<^verbatim>\<open>mgr.Start\<close> returns an error, whatever
  \<^verbatim>\<open>CreateServiceMonitors\<close> returned.
\<close>

theorem not_present_guidance_then_start:
  assumes "bootstrapped w"
  shows "(CreateServiceMonitors w (fst (GetOperatorNamespace_143 w)) = Some ErrServiceMonitorNotPresent \<longrightarrow>
            sublist
              [Call_CreateServiceMonitors (fst (GetOperatorNamespace_143 w)),
               Log Error couldNotCreateServiceMonitor [AErr ErrServiceMonitorNotPresent],
               Log Error installPrometheus [AErr ErrServiceMonitorNotPresent],
               Log Info ''Starting the Cmd.'' [], Call_mgr_Start]
              (fst (main w)) \<and>
            filter isGuidance (fst (main w)) =
              [Log Error installPrometheus [AErr ErrServiceMonitorNotPresent]]) \<and>
         (CreateServiceMonitors w (fst (GetOperatorNamespace_143 w)) \<noteq> Some ErrServiceMonitorNotPresent \<longrightarrow>
            filter isGuidance (fst (main w)) = []) \<and>
         Call_mgr_Start \<in> set (fst (main w)) \<and>
         snd (main w) = (if mgr_Start w = None then 0 else 1)"
proof (intro conjI impI)
  assume csm: "CreateServiceMonitors w (fst (GetOperatorNamespace_143 w)) = Some ErrServiceMonitorNotPresent"
  from assms csm show "sublist
      [Call_CreateServiceMonitors (fst (GetOperatorNamespace_143 w)),
       Log Error couldNotCreateServiceMonitor [AErr ErrServiceMonitorNotPresent],
       Log Error installPrometheus [AErr ErrServiceMonitorNotPresent],
       Log Info ''Starting the Cmd.'' [], Call_mgr_Start]
      (fst (main w))"
    by (rule main_ends_with_start)
  from csm show "filter isGuidance (fst (main w)) =
      [Log Error installPrometheus [AErr ErrServiceMonitorNotPresent]]"
    by (simp add: guidance_main [OF assms])
next
  assume "CreateServiceMonitors w (fst (GetOperatorNamespace_143 w)) \<noteq> Some ErrServiceMonitorNotPresent"
  then show "filter isGuidance (fst (main w)) = []"
    by (simp add: guidance_main [OF assms])
next
  show "Call_mgr_Start \<in> set (fst (main w))"
    by (simp add: main_bootstrapped [OF assms] startManager_trace)
  show "snd (main w) = (if mgr_Start w = None then 0 else 1)"
    by (simp add: main_bootstrapped [OF assms] startManager_status)
qed

theorem not_present_guidance_then_start_witness:
  "bootstrapped world_no_prometheus \<and>
   CreateServiceMonitors world_no_prometheus (fst (GetOperatorNamespace_143 world_no_prometheus))
     = Some ErrServiceMonitorNotPresent \<and>
   sublist
     [Call_CreateServiceMonitors ''opendatahub'',
      Log Error couldNotCreateServiceMonitor [AErr ErrServiceMonitorNotPresent],
      Log Error installPrometheus [AErr ErrServiceMonitorNotPresent],
      Log Info ''Starting the Cmd.'' [], Call_mgr_Start]
     (fst (main world_no_prometheus)) \<and>
   filter isGuidance (fst (main world_no_prometheus)) =
     [Log Error installPrometheus [AErr ErrServiceMonitorNotPresent]] \<and>
   snd (main world_no_prometheus) = 0 \<and>
   bootstrapped world_monitor_error \<and>
   CreateServiceMonitors world_monitor_error (fst (GetOperatorNamespace_143 world_monitor_error))
     = Some (ErrOther ''forbidden'') \<and>
   filter isGuidance (fst (main world_monitor_error)) = [] \<and>
   Call_mgr_Start \<in> set (fst (main world_monitor_error)) \<and>
   snd (main world_monitor_error) = 0"
proof -
  have h: "CreateServiceMonitors world_no_prometheus (fst (GetOperatorNamespace_143 world_no_prometheus))
      = Some ErrServiceMonitorNotPresent"
    "CreateServiceMonitors world_monitor_error (fst (GetOperatorNamespace_143 world_monitor_error))
      = Some (ErrOther ''forbidden'')"
    "fst (GetOperatorNamespace_143 world_no_prometheus) = ''opendatahub''"
    "mgr_Start world_no_prometheus = None" "mgr_Start world_monitor_error = None"
    by (simp_all add: world_defs)
  show ?thesis
    using h bootstrapped_worlds(3,4)
      not_present_guidance_then_start [OF bootstrapped_worlds(3)]
      not_present_guidance_then_start [OF bootstrapped_worlds(4)]
    by simp
qed

text \<open>
  C10. When \<^verbatim>\<open>GetGVKsFromAddToScheme\<close> succeeds and \<^verbatim>\<open>GetOperatorNamespace\<close> fails at
  line 175, serveCRMetrics returns that error after these two calls only: the filter is
  not run and \<^verbatim>\<open>GenerateAndServeCRMetrics\<close> is not called. main, when it gets as far as
  line 126, logs the error and goes on: it asks for the metrics Service and for the
  ServiceMonitors and starts the manager, and the error does not change the exit status.
\<close>

theorem operator_namespace_failure_skips_cr_metrics:
  assumes "GetGVKsFromAddToScheme w = (gvks, None)"
    and "GetOperatorNamespace_175 w = (ns, Some e)"
  shows "serveCRMetrics w = ([Call_GetGVKsFromAddToScheme, Call_GetOperatorNamespace], Some e) \<and>
         (bootstrapped w \<longrightarrow>
            callsOf (fst (main w)) =
              callsToControllers w @
              [Call_GetGVKsFromAddToScheme, Call_GetOperatorNamespace,
               Call_CreateMetricsService [metricsPort, operatorMetricsPort],
               Call_GetOperatorNamespace,
               Call_CreateServiceMonitors (fst (GetOperatorNamespace_143 w)),
               Call_mgr_Start] \<and>
            sublist
              [Call_GetGVKsFromAddToScheme, Call_GetOperatorNamespace,
               Log Error couldNotServe [AErr e],
               Call_CreateMetricsService [metricsPort, operatorMetricsPort]]
              (fst (main w)) \<and>
            snd (main w) = (if mgr_Start w = None then 0 else 1))"
proof (intro conjI impI)
  from assms
  show "serveCRMetrics w = ([Call_GetGVKsFromAddToScheme, Call_GetOperatorNamespace], Some e)"
    by (rule serveCRMetrics_namespace_fails)
next
  assume b: "bootstrapped w"
  from exposeMetrics_namespace_fails [OF assms] obtain ss where
    ss: "exposeMetrics w =
      [Call_GetGVKsFromAddToScheme, Call_GetOperatorNamespace, Log Error couldNotServe [AErr e],
       Call_CreateMetricsService [metricsPort, operatorMetricsPort]] @ ss"
    and calls: "callsOf ss = [Call_GetOperatorNamespace,
       Call_CreateServiceMonitors (fst (GetOperatorNamespace_143 w))]"
    by blast
  have "callsOf (exposeMetrics w) =
      [Call_GetGVKsFromAddToScheme, Call_GetOperatorNamespace,
       Call_CreateMetricsService [metricsPort, operatorMetricsPort]] @ callsOf ss"
    unfolding ss callsOf_append by (simp add: callsOf_def)
  with calls show "callsOf (fst (main w)) =
      callsToControllers w @
      [Call_GetGVKsFromAddToScheme, Call_GetOperatorNamespace,
       Call_CreateMetricsService [metricsPort, operatorMetricsPort],
       Call_GetOperatorNamespace,
       Call_CreateServiceMonitors (fst (GetOperatorNamespace_143 w)),
       Call_mgr_Start]"
    by (simp add: callsOf_bootstrapped [OF b])
  have "fst (main w) = bootTrace w @
      [Call_GetGVKsFromAddToScheme, Call_GetOperatorNamespace, Log Error couldNotServe [AErr e],
       Call_CreateMetricsService [metricsPort, operatorMetricsPort]] @ (ss @ fst (startManager w))"
    by (simp add: main_bootstrapped [OF b] ss)
  then show "sublist
      [Call_GetGVKsFromAddToScheme, Call_GetOperatorNamespace,
       Log Error couldNotServe [AErr e],
       Call_CreateMetricsService [metricsPort, operatorMetricsPort]]
      (fst (main w))"
    unfolding sublist_def by blast
  from b show "snd (main w) = (if mgr_Start w = None then 0 else 1)"
    by (simp add: main_bootstrapped startManager_status)
qed

theorem operator_namespace_failure_skips_cr_metrics_witness:
  "GetGVKsFromAddToScheme world_no_operator_namespace = ([gvk_a_Foo, gvk_b_Bar, gvk_a_Baz], None) \<and>
   GetOperatorNamespace_175 world_no_operator_namespace = ([], Some (ErrOther ''namespace not found'')) \<and>
   serveCRMetrics world_no_operator_namespace =
     ([Call_GetGVKsFromAddToScheme, Call_GetOperatorNamespace], Some (ErrOther ''namespace not found'')) \<and>
   bootstrapped world_no_operator_namespace \<and>
   callsOf (fst (main world_no_operator_namespace)) =
     callsToControllers world_no_operator_namespace @
     [Call_GetGVKsFromAddToScheme, Call_GetOperatorNamespace,
      Call_CreateMetricsService [8383, 8686],
      Call_GetOperatorNamespace, Call_CreateServiceMonitors ''opendatahub'', Call_mgr_Start] \<and>
   snd (main world_no_operator_namespace) = 0"
proof -
  have g: "GetGVKsFromAddToScheme world_no_operator_namespace =
      ([gvk_a_Foo, gvk_b_Bar, gvk_a_Baz], None)"
    by (simp add: world_defs)
  have n: "GetOperatorNamespace_175 world_no_operator_namespace =
      ([], Some (ErrOther ''namespace not found''))"
    by (simp add: world_defs)
  have h: "fst (GetOperatorNamespace_143 world_no_operator_namespace) = ''opendatahub''"
    "mgr_Start world_no_operator_namespace = None"
    by (simp_all add: world_defs)
  show ?thesis
    using g n h bootstrapped_worlds(5) operator_namespace_failure_skips_cr_metrics [OF g n]
    by (simp add: metricsPort_def operatorMetricsPort_def)
qed

end
